theory Spec2Isabelle
  imports Complex_Main
begin

section \<open>Values, errors and the world of run.py\<close>

text \<open>
  A parameter point is a row of the design array, a design is the array itself, and a
  prediction is the pair (mean, variance) the surrogate returns for one query point.
  numpy's floats are read as reals.
\<close>

type_synonym point = "real list"
type_synonym design = "point list"
type_synonym prediction = "real \<times> real"

text \<open>
  The exceptions that can leave a function of run.py: an index out of range
  (\<open>sys.argv[k]\<close>, \<open>known_input[0]\<close>, numpy indexing), a missing file in \<open>np.load\<close>,
  \<open>exit()\<close>, and whatever a collaborator raises.
\<close>

datatype error =
    IndexError
  | FileNotFoundError string
  | SystemExit
  | External string

text \<open>What \<open>print\<close> writes: a line of text, or an array printed by numpy.\<close>

datatype printed =
    Text string
  | ActualPoint point
  | Points design

text \<open>The calls run.py makes to its collaborators, in the order it makes them.\<close>

datatype call =
    Seed nat
  | Sample int
  | CreateProblem point string string
  | RunSimulation string int string string string
  | ComputeMoment string string
  | NewGaussianProcess design "real list"
  | LearnHyperparameters
  | Predict design
  | NewHistoryMatching real design "prediction list" real
  | GetImplausibility
  | GetNROY
  | Save string design
  | Load string

text \<open>
  The world: numpy's process-wide random state, the simulator's case directories (known
  only to the collaborators of module \<open>earthquake\<close>), the \<open>.npy\<close> files keyed by the
  directory entries of their resolved path, the working directory, what has been
  printed, and the log of the calls made.
\<close>

record ('r, 's) world =
  rng :: 'r
  sims :: 's
  npy_files :: "string list \<rightharpoonup> design"
  cwd :: string
  stdout :: "printed list"
  calls :: "call list"

text \<open>
  The collaborators, which are not part of run.py: \<open>np.random.seed\<close>, the sampler
  \<open>ed.sample\<close> (it reads and advances numpy's random state), the three functions of
  module \<open>earthquake\<close> (construction and execution change the case directories,
  extraction only reads them), the Gaussian process and the history matching of
  \<open>mogp_emulator\<close>. With them stand two facts of the interpreter that run.py does
  not fix: the limit on the digits \<open>int\<close> converts (\<open>sys.get_int_max_str_digits()\<close>:
  4300 by default since Python 3.11, 0 for no limit) and what \<open>int\<close> makes of text
  with characters outside ASCII (Unicode digits and spaces).
\<close>

record ('r, 's, 'g, 'h) env =
  np_random_seed :: "nat \<Rightarrow> 'r"
  ed_sample :: "int \<Rightarrow> 'r \<Rightarrow> (error + design) \<times> 'r"
  create_problem :: "point \<Rightarrow> string \<Rightarrow> string \<Rightarrow> 's \<Rightarrow> (error + unit) \<times> 's"
  run_simulation :: "string \<Rightarrow> int \<Rightarrow> string \<Rightarrow> string \<Rightarrow> string \<Rightarrow> 's \<Rightarrow> (error + unit) \<times> 's"
  compute_moment :: "string \<Rightarrow> string \<Rightarrow> 's \<Rightarrow> error + real"
  GaussianProcess :: "design \<Rightarrow> real list \<Rightarrow> error + 'g"
  learn_hyperparameters :: "'g \<Rightarrow> 'r \<Rightarrow> (error + 'g) \<times> 'r"
  predict :: "'g \<Rightarrow> design \<Rightarrow> error + prediction list"
  HistoryMatching :: "real \<Rightarrow> design \<Rightarrow> prediction list \<Rightarrow> real \<Rightarrow> error + 'h"
  get_implausibility :: "'h \<Rightarrow> error + real list"
  get_NROY :: "'h \<Rightarrow> error + nat list"
  int_max_str_digits :: nat
  int_non_ascii :: "string \<Rightarrow> int option"

text \<open>
  A statement either returns a value or raises, and changes the world either way; the
  next statement runs only after a normal return.
\<close>

definition andthen ::
  "('w \<Rightarrow> (error + 'a) \<times> 'w) \<Rightarrow> ('a \<Rightarrow> 'w \<Rightarrow> (error + 'b) \<times> 'w) \<Rightarrow> 'w \<Rightarrow> (error + 'b) \<times> 'w" where
  "andthen m f w = (case m w of (Inl e, w') \<Rightarrow> (Inl e, w') | (Inr x, w') \<Rightarrow> f x w')"

definition lift :: "error + 'a \<Rightarrow> 'w \<Rightarrow> (error + 'a) \<times> 'w" where
  "lift r w = (r, w)"

section \<open>Strings: str(int), os.path.join, path resolution\<close>

definition digit_char :: "nat \<Rightarrow> char" where
  "digit_char d = ''0123456789'' ! d"

function str_nat :: "nat \<Rightarrow> string" where
  "str_nat n = (if n < 10 then [digit_char n] else str_nat (n div 10) @ [digit_char (n mod 10)])"
  by pat_completeness auto
termination
  by (relation "measure id") auto

declare str_nat.simps [simp del]

text \<open>\<open>str(i)\<close> and \<open>"{}".format(i)\<close> of a Python int: decimal, with a minus sign.\<close>

definition str_int :: "int \<Rightarrow> string" where
  "str_int i = (if i < 0 then CHR ''-'' # str_nat (nat (- i)) else str_nat (nat i))"

text \<open>\<open>os.path.join(a, b)\<close> of posixpath.\<close>

definition join :: "string \<Rightarrow> string \<Rightarrow> string" where
  "join a b =
     (if b \<noteq> [] \<and> hd b = CHR ''/'' then b
      else if a = [] \<or> last a = CHR ''/'' then a @ b
      else a @ ''/'' @ b)"

fun split_sep :: "char \<Rightarrow> string \<Rightarrow> string list" where
  "split_sep s [] = [[]]"
| "split_sep s (c # cs) =
     (if c = s then [] # split_sep s cs
      else (case split_sep s cs of [] \<Rightarrow> [[c]] | x # xs \<Rightarrow> (c # x) # xs))"

text \<open>
  The directory entries a path walks through, most recent first in \<open>st\<close>: empty entries
  and \<open>.\<close> stay, \<open>..\<close> goes up (the root is its own parent). Symbolic links are not
  modelled, and the directory a \<open>..\<close> leaves is taken to exist: where it does not,
  the system refuses the path, so nothing below is stated for a path through \<open>..\<close>.
\<close>

fun walk :: "string list \<Rightarrow> string list \<Rightarrow> string list" where
  "walk st [] = rev st"
| "walk st (c # cs) =
     (if c = [] \<or> c = ''.'' then walk st cs
      else if c = ''..'' then walk (tl st) cs
      else walk (c # st) cs)"

text \<open>The file a path names when the process opens it from working directory \<open>d\<close>.\<close>

definition fs_key :: "string \<Rightarrow> string \<Rightarrow> string list" where
  "fs_key d p = walk [] (split_sep (CHR ''/'') (join d p))"

section \<open>The calls to the collaborators\<close>

definition seed_call :: "('r, 's, 'g, 'h) env \<Rightarrow> nat \<Rightarrow> ('r, 's) world \<Rightarrow> (error + unit) \<times> ('r, 's) world" where
  "seed_call env k w = (Inr (), w\<lparr>rng := np_random_seed env k, calls := calls w @ [Seed k]\<rparr>)"

definition sample_call :: "('r, 's, 'g, 'h) env \<Rightarrow> int \<Rightarrow> ('r, 's) world \<Rightarrow> (error + design) \<times> ('r, 's) world" where
  "sample_call env n w =
     (case ed_sample env n (rng w) of
        (res, r') \<Rightarrow> (res, w\<lparr>rng := r', calls := calls w @ [Sample n]\<rparr>))"

definition create_problem_call ::
  "('r, 's, 'g, 'h) env \<Rightarrow> point \<Rightarrow> string \<Rightarrow> string \<Rightarrow> ('r, 's) world \<Rightarrow> (error + unit) \<times> ('r, 's) world" where
  "create_problem_call env p name output_dir w =
     (case create_problem env p name output_dir (sims w) of
        (res, s') \<Rightarrow> (res, w\<lparr>sims := s', calls := calls w @ [CreateProblem p name output_dir]\<rparr>))"

definition run_simulation_call ::
  "('r, 's, 'g, 'h) env \<Rightarrow> string \<Rightarrow> int \<Rightarrow> string \<Rightarrow> string \<Rightarrow> string \<Rightarrow> ('r, 's) world
     \<Rightarrow> (error + unit) \<times> ('r, 's) world" where
  "run_simulation_call env name n_proc mpi_exec fdfault_exec output_dir w =
     (case run_simulation env name n_proc mpi_exec fdfault_exec output_dir (sims w) of
        (res, s') \<Rightarrow>
          (res, w\<lparr>sims := s',
                  calls := calls w @ [RunSimulation name n_proc mpi_exec fdfault_exec output_dir]\<rparr>))"

definition compute_moment_call ::
  "('r, 's, 'g, 'h) env \<Rightarrow> string \<Rightarrow> string \<Rightarrow> ('r, 's) world \<Rightarrow> (error + real) \<times> ('r, 's) world" where
  "compute_moment_call env name results_dir w =
     (compute_moment env name results_dir (sims w),
      w\<lparr>calls := calls w @ [ComputeMoment name results_dir]\<rparr>)"

text \<open>
  \<open>np.save(file, arr)\<close> writes the array to the file the path names from the working
  directory; \<open>np.load(file)\<close> reads it back and raises when there is no such file.
  Writing is taken to succeed.
\<close>

definition np_save :: "string \<Rightarrow> design \<Rightarrow> ('r, 's) world \<Rightarrow> (error + unit) \<times> ('r, 's) world" where
  "np_save file arr w =
     (Inr (), w\<lparr>npy_files := (npy_files w)(fs_key (cwd w) file \<mapsto> arr),
                calls := calls w @ [Save file arr]\<rparr>)"

definition np_load :: "string \<Rightarrow> ('r, 's) world \<Rightarrow> (error + design) \<times> ('r, 's) world" where
  "np_load file w =
     ((case npy_files w (fs_key (cwd w) file) of
         None \<Rightarrow> Inl (FileNotFoundError file)
       | Some arr \<Rightarrow> Inr arr),
      w\<lparr>calls := calls w @ [Load file]\<rparr>)"

definition print :: "printed \<Rightarrow> ('r, 's) world \<Rightarrow> (error + unit) \<times> ('r, 's) world" where
  "print x w = (Inr (), w\<lparr>stdout := stdout w @ [x]\<rparr>)"

section \<open>run\_mogp\_simulation\<close>

text \<open>
  The loop of lines 25 to 31: \<open>counter\<close> is the loop's counter, the list what is left of
  \<open>input_points\<close>.
\<close>

fun simulation_loop ::
  "('r, 's, 'g, 'h) env \<Rightarrow> string \<Rightarrow> string \<Rightarrow> string \<Rightarrow> int \<Rightarrow> design \<Rightarrow> ('r, 's) world
     \<Rightarrow> (error + unit) \<times> ('r, 's) world" where
  "simulation_loop env mpi_exec fdfault_exec results_dir counter [] w = (Inr (), w)"
| "simulation_loop env mpi_exec fdfault_exec results_dir counter (p # rest) w =
     (case create_problem_call env p (''simulation_'' @ str_int counter) results_dir w of
        (Inl e, w') \<Rightarrow> (Inl e, w')
      | (Inr u, w') \<Rightarrow>
          (case run_simulation_call env (''simulation_'' @ str_int counter) 4
                  mpi_exec fdfault_exec results_dir w' of
             (Inl e, w'') \<Rightarrow> (Inl e, w'')
           | (Inr u', w'') \<Rightarrow>
               simulation_loop env mpi_exec fdfault_exec results_dir (counter + 1) rest w''))"

definition run_mogp_simulation ::
  "('r, 's, 'g, 'h) env \<Rightarrow> int \<Rightarrow> string \<Rightarrow> string \<Rightarrow> string \<Rightarrow> ('r, 's) world
     \<Rightarrow> (error + unit) \<times> ('r, 's) world" where
  "run_mogp_simulation env sample_points mpi_exec fdfault_exec results_dir =
     andthen (seed_call env 157374) (\<lambda>u.
     andthen (sample_call env sample_points) (\<lambda>input_points.
     andthen (simulation_loop env mpi_exec fdfault_exec results_dir 1 input_points) (\<lambda>u'.
     np_save ''input_points.npy'' input_points)))"

section \<open>run\_mogp\_analysis\<close>

definition gaussian_process_call ::
  "('r, 's, 'g, 'h) env \<Rightarrow> design \<Rightarrow> real list \<Rightarrow> ('r, 's) world \<Rightarrow> (error + 'g) \<times> ('r, 's) world" where
  "gaussian_process_call env inputs targets w =
     (GaussianProcess env inputs targets,
      w\<lparr>calls := calls w @ [NewGaussianProcess inputs targets]\<rparr>)"

definition learn_hyperparameters_call ::
  "('r, 's, 'g, 'h) env \<Rightarrow> 'g \<Rightarrow> ('r, 's) world \<Rightarrow> (error + 'g) \<times> ('r, 's) world" where
  "learn_hyperparameters_call env gp w =
     (case learn_hyperparameters env gp (rng w) of
        (res, r') \<Rightarrow> (res, w\<lparr>rng := r', calls := calls w @ [LearnHyperparameters]\<rparr>))"

definition predict_call ::
  "('r, 's, 'g, 'h) env \<Rightarrow> 'g \<Rightarrow> design \<Rightarrow> ('r, 's) world \<Rightarrow> (error + prediction list) \<times> ('r, 's) world" where
  "predict_call env gp query_points w =
     (predict env gp query_points, w\<lparr>calls := calls w @ [Predict query_points]\<rparr>)"

definition history_matching_call ::
  "('r, 's, 'g, 'h) env \<Rightarrow> real \<Rightarrow> design \<Rightarrow> prediction list \<Rightarrow> real \<Rightarrow> ('r, 's) world
     \<Rightarrow> (error + 'h) \<times> ('r, 's) world" where
  "history_matching_call env obs coords expectations threshold w =
     (HistoryMatching env obs coords expectations threshold,
      w\<lparr>calls := calls w @ [NewHistoryMatching obs coords expectations threshold]\<rparr>)"

definition get_implausibility_call ::
  "('r, 's, 'g, 'h) env \<Rightarrow> 'h \<Rightarrow> ('r, 's) world \<Rightarrow> (error + real list) \<times> ('r, 's) world" where
  "get_implausibility_call env hm w =
     (get_implausibility env hm, w\<lparr>calls := calls w @ [GetImplausibility]\<rparr>)"

definition get_NROY_call ::
  "('r, 's, 'g, 'h) env \<Rightarrow> 'h \<Rightarrow> ('r, 's) world \<Rightarrow> (error + nat list) \<times> ('r, 's) world" where
  "get_NROY_call env hm w = (get_NROY env hm, w\<lparr>calls := calls w @ [GetNROY]\<rparr>)"

text \<open>\<open>known_input[0]\<close>: the first row, or IndexError when the array has none.\<close>

definition first_row :: "design \<Rightarrow> error + point" where
  "first_row arr = (case arr of [] \<Rightarrow> Inl IndexError | p # rest \<Rightarrow> Inr p)"

text \<open>\<open>query_points[idx]\<close> for a list of row numbers: IndexError when one is out of range.\<close>

definition take_rows :: "design \<Rightarrow> nat list \<Rightarrow> error + design" where
  "take_rows arr idx =
     (if list_all (\<lambda>i. i < length arr) idx then Inr (map (\<lambda>i. arr ! i) idx) else Inl IndexError)"

text \<open>The loop of lines 44 to 48; \<open>results\<close> is the list built so far.\<close>

fun results_loop ::
  "('r, 's, 'g, 'h) env \<Rightarrow> string \<Rightarrow> int \<Rightarrow> design \<Rightarrow> real list \<Rightarrow> ('r, 's) world
     \<Rightarrow> (error + real list) \<times> ('r, 's) world" where
  "results_loop env results_dir counter [] results w = (Inr results, w)"
| "results_loop env results_dir counter (p # rest) results w =
     (case compute_moment_call env (''simulation_'' @ str_int counter) results_dir w of
        (Inl e, w') \<Rightarrow> (Inl e, w')
      | (Inr result, w') \<Rightarrow>
          results_loop env results_dir (counter + 1) rest (results @ [result]) w')"

text \<open>Lines 39 to 50: the design read back and the result of every one of its cases.\<close>

definition load_training_set ::
  "('r, 's, 'g, 'h) env \<Rightarrow> string \<Rightarrow> ('r, 's) world \<Rightarrow> (error + design \<times> real list) \<times> ('r, 's) world" where
  "load_training_set env results_dir =
     andthen (np_load (join results_dir ''input_points.npy'')) (\<lambda>input_points.
     andthen (results_loop env results_dir 1 input_points []) (\<lambda>results.
     lift (Inr (input_points, results))))"

text \<open>Lines 69 to 74: the additional point and its simulated value.\<close>

definition draw_and_run_validation ::
  "('r, 's, 'g, 'h) env \<Rightarrow> string \<Rightarrow> string \<Rightarrow> string \<Rightarrow> ('r, 's) world
     \<Rightarrow> (error + design \<times> real) \<times> ('r, 's) world" where
  "draw_and_run_validation env mpi_exec fdfault_exec results_dir =
     andthen (sample_call env 1) (\<lambda>known_input.
     andthen (lift (first_row known_input)) (\<lambda>p.
     andthen (create_problem_call env p ''known_value'' results_dir) (\<lambda>u.
     andthen (run_simulation_call env ''known_value'' 4 mpi_exec fdfault_exec results_dir) (\<lambda>u'.
     andthen (compute_moment_call env ''known_value'' results_dir) (\<lambda>known_value.
     lift (Inr (known_input, known_value)))))))"

text \<open>Lines 90 to 100: history matching with threshold 2 and the two reports.\<close>

definition history_matching_stage ::
  "('r, 's, 'g, 'h) env \<Rightarrow> real \<Rightarrow> design \<Rightarrow> prediction list \<Rightarrow> design \<Rightarrow> ('r, 's) world
     \<Rightarrow> (error + unit) \<times> ('r, 's) world" where
  "history_matching_stage env known_value query_points predictions known_input =
     andthen (history_matching_call env known_value query_points predictions 2) (\<lambda>hm.
     andthen (get_implausibility_call env hm) (\<lambda>implaus.
     andthen (lift (first_row known_input)) (\<lambda>p.
     andthen (print (ActualPoint p)) (\<lambda>u.
     andthen (print (Text ''NROY:'')) (\<lambda>u'.
     andthen (get_NROY_call env hm) (\<lambda>idx.
     andthen (lift (take_rows query_points idx)) (\<lambda>rows.
     print (Points rows))))))))"

definition run_mogp_analysis ::
  "('r, 's, 'g, 'h) env \<Rightarrow> string \<Rightarrow> string \<Rightarrow> string \<Rightarrow> ('r, 's) world
     \<Rightarrow> (error + unit) \<times> ('r, 's) world" where
  "run_mogp_analysis env mpi_exec fdfault_exec results_dir =
     andthen (load_training_set env results_dir) (\<lambda>training.
     andthen (gaussian_process_call env (fst training) (snd training)) (\<lambda>gp.
     andthen (learn_hyperparameters_call env gp) (\<lambda>gp'.
     andthen (sample_call env 1000) (\<lambda>query_points.
     andthen (predict_call env gp' query_points) (\<lambda>predictions.
     andthen (draw_and_run_validation env mpi_exec fdfault_exec results_dir) (\<lambda>known.
     history_matching_stage env (snd known) query_points predictions (fst known)))))))"

section \<open>The entry point\<close>

text \<open>\<open>sys.argv[k]\<close>.\<close>

definition argv_get :: "string list \<Rightarrow> nat \<Rightarrow> error + string" where
  "argv_get argv k = (if k < length argv then Inr (argv ! k) else Inl IndexError)"

text \<open>Text of ASCII characters only.\<close>

definition is_ascii :: "string \<Rightarrow> bool" where
  "is_ascii s = list_all (\<lambda>c. (of_char c :: nat) < 128) s"

text \<open>
  \<open>int(s)\<close> for ASCII text: the white space of C (tab, line feed, vertical tab, form
  feed, carriage return, space) is skipped at both ends, one sign may lead, and the
  digits may be grouped by single underscores; more digits than the interpreter's
  limit are refused. \<open>None\<close> is ValueError.
\<close>

definition py_isspace :: "char \<Rightarrow> bool" where
  "py_isspace c = (c \<in> set [CHR 0x09, CHR 0x0A, CHR 0x0B, CHR 0x0C, CHR 0x0D, CHR 0x20])"

definition py_strip :: "string \<Rightarrow> string" where
  "py_strip s = rev (dropWhile py_isspace (rev (dropWhile py_isspace s)))"

definition is_digit :: "char \<Rightarrow> bool" where
  "is_digit c = (c \<in> set ''0123456789'')"

definition digits_value :: "string \<Rightarrow> nat" where
  "digits_value s = foldl (\<lambda>a c. 10 * a + (of_char c - 48)) 0 s"

definition py_digits :: "nat \<Rightarrow> string \<Rightarrow> nat option" where
  "py_digits max_digits s =
     (if list_all (\<lambda>g. g \<noteq> [] \<and> list_all is_digit g) (split_sep (CHR ''_'') s)
         \<and> (max_digits = 0 \<or> length (concat (split_sep (CHR ''_'') s)) \<le> max_digits)
      then Some (digits_value (concat (split_sep (CHR ''_'') s)))
      else None)"

definition py_int_ascii :: "nat \<Rightarrow> string \<Rightarrow> int option" where
  "py_int_ascii max_digits s =
     (case py_strip s of
        [] \<Rightarrow> None
      | c # r \<Rightarrow>
          if c = CHR ''-'' then map_option (\<lambda>n. - int n) (py_digits max_digits r)
          else if c = CHR ''+'' then map_option int (py_digits max_digits r)
          else map_option int (py_digits max_digits (c # r)))"

text \<open>\<open>int(s)\<close> for any text: what is not ASCII is the interpreter's to read.\<close>

definition py_int :: "('r, 's, 'g, 'h) env \<Rightarrow> string \<Rightarrow> int option" where
  "py_int env s =
     (if is_ascii s then py_int_ascii (int_max_str_digits env) s else int_non_ascii env s)"

text \<open>The two lines printed before the batch: \<open>str(type(x))\<close> is \<open><class 'str'>\<close> or \<open><class 'int'>\<close>.\<close>

definition mood_line :: "string \<Rightarrow> string" where
  "mood_line mood =
     [CHR 0x0A, CHR 0x09, CHR 0x09] @ ''mood = '' @ mood @ [CHR 0x09]
       @ ''<class '' @ [CHR 0x27] @ ''str'' @ [CHR 0x27] @ ''>''"

definition sample_points_line :: "int \<Rightarrow> string" where
  "sample_points_line sample_points =
     [CHR 0x09, CHR 0x09] @ ''sample_points = '' @ str_int sample_points @ [CHR 0x09]
       @ ''<class '' @ [CHR 0x27] @ ''int'' @ [CHR 0x27] @ ''>''"

text \<open>
  Lines 103 to 128. ValueError of \<open>int\<close> is the one exception caught; \<open>exit()\<close> raises
  SystemExit.
\<close>

definition main ::
  "('r, 's, 'g, 'h) env \<Rightarrow> string list \<Rightarrow> ('r, 's) world \<Rightarrow> (error + unit) \<times> ('r, 's) world" where
  "main env argv =
     andthen (lift (argv_get argv 1)) (\<lambda>mood.
       if mood = ''run_simulation'' then
         andthen (lift (argv_get argv 2)) (\<lambda>mpi_exec.
         andthen (lift (argv_get argv 3)) (\<lambda>fdfault_exec.
         andthen (lift (argv_get argv 4)) (\<lambda>results_dir.
         andthen (lift (argv_get argv 5)) (\<lambda>arg.
           case py_int env arg of
             None \<Rightarrow>
               andthen (print (Text ''Error : input sample points should be integer value !''))
                 (\<lambda>u. lift (Inl SystemExit))
           | Some sample_points \<Rightarrow>
               andthen (print (Text (mood_line mood))) (\<lambda>u.
               andthen (print (Text (sample_points_line sample_points))) (\<lambda>u'.
               run_mogp_simulation env sample_points mpi_exec fdfault_exec results_dir))))))
       else if mood = ''analysis'' then
         andthen (lift (argv_get argv 2)) (\<lambda>mpi_exec.
         andthen (lift (argv_get argv 3)) (\<lambda>fdfault_exec.
         andthen (lift (argv_get argv 4)) (\<lambda>results_dir.
         run_mogp_analysis env mpi_exec fdfault_exec results_dir)))
       else lift (Inr ()))"

section \<open>What the theorems speak of\<close>

text \<open>
  The calls of a batch over the design \<open>pts\<close> whose first case has number \<open>first\<close>: for
  each row in turn, the construction and then the execution of the case named after the
  row's number.
\<close>

definition case_calls :: "string \<Rightarrow> string \<Rightarrow> string \<Rightarrow> int \<Rightarrow> design \<Rightarrow> call list" where
  "case_calls mpi_exec fdfault_exec results_dir first pts =
     concat (map (\<lambda>i. [CreateProblem (pts ! i) (''simulation_'' @ str_int (first + int i)) results_dir,
                        RunSimulation (''simulation_'' @ str_int (first + int i)) 4
                          mpi_exec fdfault_exec results_dir])
                 [0..<length pts])"

text \<open>
  Modelled from the spec: the implausibility engine (\<open>HistoryMatching\<close> of
  \<open>mogp_emulator\<close>, its \<open>get_implausibility\<close> and \<open>get_NROY\<close>) is not in the sources.
  Section 4.5 of the specification: for each query point the implausibility is
  \<open>|observation - mean| / sqrt(variance)\<close>, and NROY is the indices whose implausibility
  is at most the threshold. A prediction whose variance is not positive has no value
  here: the specification leaves its rule to the implementer.
\<close>

definition history_matching_spec ::
  "real \<Rightarrow> prediction list \<Rightarrow> real \<Rightarrow> (real list \<times> nat list) option" where
  "history_matching_spec obs predictions threshold =
     (if list_all (\<lambda>p. 0 < snd p) predictions
      then Some (map (\<lambda>p. \<bar>obs - fst p\<bar> / sqrt (snd p)) predictions,
                 filter (\<lambda>i. \<bar>obs - fst (predictions ! i)\<bar> / sqrt (snd (predictions ! i)) \<le> threshold)
                   [0..<length predictions])
      else None)"

subsection \<open>Collaborators to run the program on\<close>

text \<open>
  A sampler that counts the points it has drawn, a simulator that records each case
  under its directory and name and returns the sum of the point's coordinates for a
  case that has run, a surrogate that predicts that sum with variance 1, and a history
  matching that rules nothing in; an interpreter with the digit limit 4300 that reads
  no text outside ASCII as an integer.
\<close>

type_synonym stub_sims = "string \<times> string \<rightharpoonup> point \<times> bool"

definition stub_point :: "nat \<Rightarrow> point" where
  "stub_point k = [- 100 - real k, 1 / 4, 1]"

definition stub_sample :: "int \<Rightarrow> nat \<Rightarrow> (error + design) \<times> nat" where
  "stub_sample n r = (Inr (map (\<lambda>k. stub_point (r + k)) [0..<nat n]), r + nat n)"

definition stub_create :: "point \<Rightarrow> string \<Rightarrow> string \<Rightarrow> stub_sims \<Rightarrow> (error + unit) \<times> stub_sims" where
  "stub_create p name output_dir s = (Inr (), s((output_dir, name) \<mapsto> (p, False)))"

definition stub_run ::
  "string \<Rightarrow> int \<Rightarrow> string \<Rightarrow> string \<Rightarrow> string \<Rightarrow> stub_sims \<Rightarrow> (error + unit) \<times> stub_sims" where
  "stub_run name n_proc mpi_exec fdfault_exec output_dir s =
     (case s (output_dir, name) of
        None \<Rightarrow> (Inl (External ''no such problem''), s)
      | Some (p, b) \<Rightarrow> (Inr (), s((output_dir, name) \<mapsto> (p, True))))"

definition stub_moment :: "string \<Rightarrow> string \<Rightarrow> stub_sims \<Rightarrow> error + real" where
  "stub_moment name results_dir s =
     (case s (results_dir, name) of
        None \<Rightarrow> Inl (External ''no output'')
      | Some (p, b) \<Rightarrow> if b then Inr (sum_list p) else Inl (External ''no output''))"

definition stub_env :: "(nat, stub_sims, design \<times> real list, unit) env" where
  "stub_env =
     \<lparr>np_random_seed = (\<lambda>k. 0),
      ed_sample = stub_sample,
      create_problem = stub_create,
      run_simulation = stub_run,
      compute_moment = stub_moment,
      GaussianProcess = (\<lambda>inputs targets. Inr (inputs, targets)),
      learn_hyperparameters = (\<lambda>gp r. (Inr gp, r)),
      predict = (\<lambda>gp qs. Inr (map (\<lambda>q. (sum_list q, 1)) qs)),
      HistoryMatching = (\<lambda>obs coords expectations threshold. Inr ()),
      get_implausibility = (\<lambda>hm. Inr []),
      get_NROY = (\<lambda>hm. Inr []),
      int_max_str_digits = 4300,
      int_non_ascii = (\<lambda>s. None)\<rparr>"


text \<open>A fresh process in \<open>/home/user/run\<close>: nothing simulated, no file saved, nothing printed.\<close>

definition world0 :: "(nat, stub_sims) world" where
  "world0 =
     \<lparr>rng = 42, sims = Map.empty, npy_files = Map.empty, cwd = ''/home/user/run'',
      stdout = [], calls = []\<rparr>"

text \<open>
  A process whose working directory holds a saved design of five points and the output
  of the cases 1, 2, 4 and 5: case \<open>simulation_3\<close> has not run.
\<close>

definition world_missing_3 :: "(nat, stub_sims) world" where
  "world_missing_3 =
     world0\<lparr>sims :=
               map_of [((''/home/user/run'', ''simulation_1''), (stub_point 0, True)),
                       ((''/home/user/run'', ''simulation_2''), (stub_point 1, True)),
                       ((''/home/user/run'', ''simulation_4''), (stub_point 3, True)),
                       ((''/home/user/run'', ''simulation_5''), (stub_point 4, True))],
             npy_files :=
               [[''home'', ''user'', ''run'', ''input_points.npy'']
                  \<mapsto> [stub_point 0, stub_point 1, stub_point 2, stub_point 3, stub_point 4]]\<rparr>"

section \<open>The batch loop and the result loop\<close>

lemma case_calls_Nil: "case_calls m f d c [] = []"
  by (simp add: case_calls_def)

lemma case_calls_Cons:
  "case_calls m f d c (p # ps) =
     CreateProblem p (''simulation_'' @ str_int c) d
       # RunSimulation (''simulation_'' @ str_int c) 4 m f d
       # case_calls m f d (c + 1) ps"
proof -
  have up: "[0..<length (p # ps)] = 0 # map Suc [0..<length ps]"
    by (simp add: upt_conv_Cons map_Suc_upt del: upt_Suc)
  have ar: "\<And>i. c + int (Suc i) = c + 1 + int i"
    by simp
  show ?thesis
    unfolding case_calls_def up
    by (simp add: comp_def ar del: upt_Suc of_nat_Suc)
qed

lemma create_problem_call_frame:
  "npy_files (snd (create_problem_call env p n d w)) = npy_files w"
  "cwd (snd (create_problem_call env p n d w)) = cwd w"
  "stdout (snd (create_problem_call env p n d w)) = stdout w"
  "rng (snd (create_problem_call env p n d w)) = rng w"
  "calls (snd (create_problem_call env p n d w)) = calls w @ [CreateProblem p n d]"
  by (simp_all add: create_problem_call_def split: prod.split)

lemma run_simulation_call_frame:
  "npy_files (snd (run_simulation_call env n k m f d w)) = npy_files w"
  "cwd (snd (run_simulation_call env n k m f d w)) = cwd w"
  "stdout (snd (run_simulation_call env n k m f d w)) = stdout w"
  "rng (snd (run_simulation_call env n k m f d w)) = rng w"
  "calls (snd (run_simulation_call env n k m f d w)) = calls w @ [RunSimulation n k m f d]"
  by (simp_all add: run_simulation_call_def split: prod.split)


lemma simulation_loop_frame:
  "npy_files (snd (simulation_loop env m f d c pts w)) = npy_files w \<and>
   cwd (snd (simulation_loop env m f d c pts w)) = cwd w \<and>
   stdout (snd (simulation_loop env m f d c pts w)) = stdout w \<and>
   rng (snd (simulation_loop env m f d c pts w)) = rng w"
proof (induction pts arbitrary: c w)
  case Nil
  show ?case by simp
next
  case (Cons p ps)
  obtain r1 w1 where c1:
    "create_problem_call env p (''simulation_'' @ str_int c) d w = (r1, w1)"
    by (cases "create_problem_call env p (''simulation_'' @ str_int c) d w")
  obtain r2 w2 where c2:
    "run_simulation_call env (''simulation_'' @ str_int c) 4 m f d w1 = (r2, w2)"
    by (cases "run_simulation_call env (''simulation_'' @ str_int c) 4 m f d w1")
  have f1: "npy_files w1 = npy_files w" "cwd w1 = cwd w" "stdout w1 = stdout w" "rng w1 = rng w"
    using create_problem_call_frame [of env p "''simulation_'' @ str_int c" d w] c1 by simp_all
  have f2: "npy_files w2 = npy_files w1" "cwd w2 = cwd w1" "stdout w2 = stdout w1" "rng w2 = rng w1"
    using run_simulation_call_frame [of env "''simulation_'' @ str_int c" 4 m f d w1] c2 by simp_all
  show ?case
    using c1 c2 f1 f2 Cons.IH [of "c + 1" w2]
    by (cases r1; cases r2) simp_all
qed

lemma simulation_loop_calls:
  "simulation_loop env m f d c pts w = (Inr u, w') \<Longrightarrow>
     calls w' = calls w @ case_calls m f d c pts"
proof (induction pts arbitrary: c w)
  case Nil
  then show ?case by (simp add: case_calls_Nil)
next
  case (Cons p ps)
  obtain r1 w1 where c1:
    "create_problem_call env p (''simulation_'' @ str_int c) d w = (r1, w1)"
    by (cases "create_problem_call env p (''simulation_'' @ str_int c) d w")
  obtain r2 w2 where c2:
    "run_simulation_call env (''simulation_'' @ str_int c) 4 m f d w1 = (r2, w2)"
    by (cases "run_simulation_call env (''simulation_'' @ str_int c) 4 m f d w1")
  have f1: "calls w1 = calls w @ [CreateProblem p (''simulation_'' @ str_int c) d]"
    using create_problem_call_frame(5) [of env p "''simulation_'' @ str_int c" d w] c1 by simp
  have f2: "calls w2 = calls w1 @ [RunSimulation (''simulation_'' @ str_int c) 4 m f d]"
    using run_simulation_call_frame(5) [of env "''simulation_'' @ str_int c" 4 m f d w1] c2 by simp
  from Cons.prems c1 c2 have rest: "simulation_loop env m f d (c + 1) ps w2 = (Inr u, w')"
    by (cases r1; cases r2) simp_all
  show ?case
    using Cons.IH [OF rest] f1 f2 by (simp add: case_calls_Cons)
qed

text \<open>A call raised in the loop ends the loop with that error.\<close>

lemma simulation_loop_result:
  "fst (simulation_loop env m f d c pts w) = Inr u \<or>
   (\<exists>e. fst (simulation_loop env m f d c pts w) = Inl e)"
  by (cases "fst (simulation_loop env m f d c pts w)") auto


lemma compute_moment_call_frame:
  "npy_files (snd (compute_moment_call env n d w)) = npy_files w"
  "cwd (snd (compute_moment_call env n d w)) = cwd w"
  "stdout (snd (compute_moment_call env n d w)) = stdout w"
  "rng (snd (compute_moment_call env n d w)) = rng w"
  "sims (snd (compute_moment_call env n d w)) = sims w"
  "calls (snd (compute_moment_call env n d w)) = calls w @ [ComputeMoment n d]"
  "fst (compute_moment_call env n d w) = compute_moment env n d (sims w)"
  by (simp_all add: compute_moment_call_def)

lemma all_less_Suc_shift: "(\<forall>i<Suc n. P i) = (P 0 \<and> (\<forall>i<n. P (Suc i)))"
  by (auto simp: less_Suc_eq_0_disj)

lemma ex_less_Suc_shift: "(\<exists>i<Suc n. P i) = (P 0 \<or> (\<exists>i<n. P (Suc i)))"
  by (auto simp: less_Suc_eq_0_disj)

lemma results_loop_frame:
  "sims (snd (results_loop env d c pts acc w)) = sims w \<and>
   npy_files (snd (results_loop env d c pts acc w)) = npy_files w \<and>
   stdout (snd (results_loop env d c pts acc w)) = stdout w \<and>
   rng (snd (results_loop env d c pts acc w)) = rng w \<and>
   cwd (snd (results_loop env d c pts acc w)) = cwd w"
proof (induction pts arbitrary: c acc w)
  case Nil
  show ?case by simp
next
  case (Cons p ps)
  show ?case
  proof (cases "compute_moment env (''simulation_'' @ str_int c) d (sims w)")
    case (Inl e)
    then show ?thesis by (simp add: compute_moment_call_def)
  next
    case (Inr r)
    then show ?thesis
      using Cons.IH [of "c + 1" "acc @ [r]" "w\<lparr>calls := calls w @ [ComputeMoment (''simulation_'' @ str_int c) d]\<rparr>"]
      by (simp add: compute_moment_call_def)
  qed
qed

lemma results_loop_Inr:
  "results_loop env d c pts acc w = (Inr rs, w') \<Longrightarrow>
     length rs = length acc + length pts \<and> take (length acc) rs = acc \<and>
     (\<forall>i<length pts.
        compute_moment env (''simulation_'' @ str_int (c + int i)) d (sims w)
          = Inr (rs ! (length acc + i)))"
proof (induction pts arbitrary: c acc w)
  case Nil
  then show ?case by simp
next
  case (Cons p ps)
  let ?w1 = "w\<lparr>calls := calls w @ [ComputeMoment (''simulation_'' @ str_int c) d]\<rparr>"
  show ?case
  proof (cases "compute_moment env (''simulation_'' @ str_int c) d (sims w)")
    case (Inl e)
    with Cons.prems show ?thesis by (simp add: compute_moment_call_def)
  next
    case (Inr r)
    with Cons.prems have rest: "results_loop env d (c + 1) ps (acc @ [r]) ?w1 = (Inr rs, w')"
      by (simp add: compute_moment_call_def)
    from Cons.IH [OF rest]
    have len: "length rs = length acc + 1 + length ps"
      and tk: "take (length acc + 1) rs = acc @ [r]"
      and nth: "\<forall>i<length ps.
        compute_moment env (''simulation_'' @ str_int (c + 1 + int i)) d (sims w)
          = Inr (rs ! (length acc + 1 + i))"
      by simp_all
    have tk0: "take (length acc) rs = acc"
    proof -
      have "take (length acc) (take (length acc + 1) rs) = take (length acc) (acc @ [r])"
        by (simp only: tk)
      then show ?thesis by simp
    qed
    have r0: "rs ! length acc = r"
    proof -
      have "(take (length acc + 1) rs) ! length acc = (acc @ [r]) ! length acc"
        by (simp only: tk)
      then show ?thesis by simp
    qed
    have ar: "\<And>i. c + int (Suc i) = c + 1 + int i" by simp
    show ?thesis
      using len tk0 r0 nth Inr
      by (simp add: all_less_Suc_shift ar del: of_nat_Suc)
  qed
qed

lemma results_loop_all_present:
  "(\<forall>i<length pts. \<exists>r. compute_moment env (''simulation_'' @ str_int (c + int i)) d (sims w) = Inr r)
     \<Longrightarrow> \<exists>rs. fst (results_loop env d c pts acc w) = Inr rs"
proof (induction pts arbitrary: c acc w)
  case Nil
  show ?case by simp
next
  case (Cons p ps)
  let ?w1 = "w\<lparr>calls := calls w @ [ComputeMoment (''simulation_'' @ str_int c) d]\<rparr>"
  have ar: "\<And>i. c + int (Suc i) = c + 1 + int i" by simp
  from Cons.prems obtain r where
    r: "compute_moment env (''simulation_'' @ str_int c) d (sims w) = Inr r"
    and rest: "\<forall>i<length ps. \<exists>r. compute_moment env (''simulation_'' @ str_int (c + 1 + int i)) d (sims ?w1) = Inr r"
    by (auto simp: all_less_Suc_shift ar simp del: of_nat_Suc)
  from Cons.IH [OF rest, of "acc @ [r]"] r show ?case
    by (simp add: compute_moment_call_def)
qed

lemma results_loop_missing:
  "i < length pts \<Longrightarrow>
   compute_moment env (''simulation_'' @ str_int (c + int i)) d (sims w) = Inl e
     \<Longrightarrow> \<exists>e' j. j \<le> i \<and> fst (results_loop env d c pts acc w) = Inl e' \<and>
            compute_moment env (''simulation_'' @ str_int (c + int j)) d (sims w) = Inl e'"
proof (induction pts arbitrary: c acc w i)
  case Nil
  then show ?case by simp
next
  case (Cons p ps)
  let ?w1 = "w\<lparr>calls := calls w @ [ComputeMoment (''simulation_'' @ str_int c) d]\<rparr>"
  have ar: "\<And>i. c + int (Suc i) = c + 1 + int i" by simp
  show ?case
  proof (cases "compute_moment env (''simulation_'' @ str_int c) d (sims w)")
    case (Inl e0)
    then have "fst (results_loop env d c (p # ps) acc w) = Inl e0"
      by (simp add: compute_moment_call_def)
    with Inl show ?thesis by (intro exI [of _ e0] exI [of _ 0]) simp
  next
    case (Inr r)
    with Cons.prems obtain k where k: "i = Suc k" by (cases i) auto
    with Cons.prems have kl: "k < length ps"
      and ke: "compute_moment env (''simulation_'' @ str_int (c + 1 + int k)) d (sims ?w1) = Inl e"
      by (simp_all add: ar del: of_nat_Suc)
    from Cons.IH [OF kl ke, of "acc @ [r]"] obtain e' j where
      j: "j \<le> k" "fst (results_loop env d (c + 1) ps (acc @ [r]) ?w1) = Inl e'"
         "compute_moment env (''simulation_'' @ str_int (c + 1 + int j)) d (sims w) = Inl e'"
      by auto
    show ?thesis
      using j k Inr
      by (intro exI [of _ e'] exI [of _ "Suc j"]) (simp add: compute_moment_call_def ar del: of_nat_Suc)
  qed
qed

section \<open>run\_mogp\_simulation: what is saved, and when\<close>

lemma str_int_small:
  "str_int 0 = ''0''" "str_int 1 = ''1''" "str_int 2 = ''2''" "str_int 3 = ''3''"
  "str_int 4 = ''4''" "str_int 5 = ''5''"
  by (simp_all add: str_int_def str_nat.simps digit_char_def)

lemma run_mogp_simulation_unfold:
  "run_mogp_simulation env n m f d w =
     (case ed_sample env n (np_random_seed env 157374) of
        (Inl e, r') \<Rightarrow> (Inl e, w\<lparr>rng := r', calls := calls w @ [Seed 157374, Sample n]\<rparr>)
      | (Inr pts, r') \<Rightarrow>
          (case simulation_loop env m f d 1 pts
                  (w\<lparr>rng := r', calls := calls w @ [Seed 157374, Sample n]\<rparr>) of
             (Inl e, w3) \<Rightarrow> (Inl e, w3)
           | (Inr u, w3) \<Rightarrow> np_save ''input_points.npy'' pts w3))"
  by (simp add: run_mogp_simulation_def andthen_def seed_call_def sample_call_def
           split: prod.split sum.split)




lemma stub_run_2:
  "fst (run_mogp_simulation stub_env 2 ''mpirun'' ''fdfault'' ''/data/out'' world0) = Inr ()"
  by (simp add: run_mogp_simulation_unfold stub_env_def stub_sample_def
        stub_create_def stub_run_def world0_def create_problem_call_def run_simulation_call_def
        np_save_def str_int_small upt_rec [of 0] numeral_2_eq_2)


section \<open>Naming and order of the cases, determinism, the entry point\<close>

lemma case_calls_length: "length (case_calls m f d c pts) = 2 * length pts"
  by (induction pts arbitrary: c) (simp_all add: case_calls_Nil case_calls_Cons)

lemma case_calls_nth:
  "i < length pts \<Longrightarrow>
     case_calls m f d c pts ! (2 * i)
       = CreateProblem (pts ! i) (''simulation_'' @ str_int (c + int i)) d \<and>
     case_calls m f d c pts ! (2 * i + 1)
       = RunSimulation (''simulation_'' @ str_int (c + int i)) 4 m f d"
proof (induction pts arbitrary: c i)
  case Nil
  then show ?case by simp
next
  case (Cons p ps)
  show ?case
  proof (cases i)
    case 0
    then show ?thesis by (simp add: case_calls_Cons)
  next
    case (Suc k)
    with Cons.prems have "k < length ps" by simp
    have ar: "c + int (Suc k) = c + 1 + int k" by simp
    from Cons.IH [OF \<open>k < length ps\<close>, of "c + 1"] Suc show ?thesis
      by (simp add: case_calls_Cons ar del: of_nat_Suc)
  qed
qed

lemma load_training_set_unfold:
  "load_training_set env d w =
     (case npy_files w (fs_key (cwd w) (join d ''input_points.npy'')) of
        None \<Rightarrow> (Inl (FileNotFoundError (join d ''input_points.npy'')),
                 w\<lparr>calls := calls w @ [Load (join d ''input_points.npy'')]\<rparr>)
      | Some pts \<Rightarrow>
          (case results_loop env d 1 pts []
                  (w\<lparr>calls := calls w @ [Load (join d ''input_points.npy'')]\<rparr>) of
             (Inl e, w') \<Rightarrow> (Inl e, w')
           | (Inr rs, w') \<Rightarrow> (Inr (pts, rs), w')))"
  by (simp add: load_training_set_def andthen_def np_load_def lift_def
           split: option.split prod.split sum.split)

text \<open>
  Claim C5. Two invocations of \<open>run_mogp_simulation\<close> with the same sample count
  generate the same design whatever the random state (and the rest of the world) each
  starts from: the design is what the sampler returns from the state the fixed seed
  157374 sets, and when both runs complete the files they save hold that same design.
\<close>

theorem batch_design_is_deterministic:
  "fst (sample_call env n (snd (seed_call env 157374 w1)))
     = fst (sample_call env n (snd (seed_call env 157374 w2))) \<and>
   (fst (run_mogp_simulation env n m1 f1 d1 w1) = Inr () \<longrightarrow>
    fst (run_mogp_simulation env n m2 f2 d2 w2) = Inr () \<longrightarrow>
      (\<exists>pts. fst (ed_sample env n (np_random_seed env 157374)) = Inr pts \<and>
         npy_files (snd (run_mogp_simulation env n m1 f1 d1 w1))
            (fs_key (cwd w1) ''input_points.npy'') = Some pts \<and>
         npy_files (snd (run_mogp_simulation env n m2 f2 d2 w2))
            (fs_key (cwd w2) ''input_points.npy'') = Some pts))"
proof -
  have a: "fst (sample_call env n (snd (seed_call env 157374 w1)))
     = fst (sample_call env n (snd (seed_call env 157374 w2)))"
    by (simp add: sample_call_def seed_call_def split: prod.split)
  have b: "\<exists>pts. fst (ed_sample env n (np_random_seed env 157374)) = Inr pts \<and>
         npy_files (snd (run_mogp_simulation env n m f d w))
            (fs_key (cwd w) ''input_points.npy'') = Some pts"
    if ok: "fst (run_mogp_simulation env n m f d w) = Inr ()" for m f d and w :: "('a, 'b) world"
  proof -
    obtain res r' where s: "ed_sample env n (np_random_seed env 157374) = (res, r')"
      by (cases "ed_sample env n (np_random_seed env 157374)")
    let ?w2 = "w\<lparr>rng := r', calls := calls w @ [Seed 157374, Sample n]\<rparr>"
    from ok s obtain pts where p: "res = Inr pts"
      by (cases res) (simp_all add: run_mogp_simulation_unfold)
    obtain lres w3 where l: "simulation_loop env m f d 1 pts ?w2 = (lres, w3)"
      by (cases "simulation_loop env m f d 1 pts ?w2")
    have fr: "npy_files w3 = npy_files w" "cwd w3 = cwd w"
      using simulation_loop_frame [of env m f d 1 pts ?w2] l by simp_all
    from ok s p l have "lres = Inr ()"
      by (cases lres) (simp_all add: run_mogp_simulation_unfold)
    with s p l fr show ?thesis
      by (simp add: run_mogp_simulation_unfold np_save_def)
  qed
  from b [of m1 f1 d1 w1] b [of m2 f2 d2 w2] a show ?thesis
    by auto
qed

text \<open>
  Claim C10. For a first command-line argument other than \<open>run_simulation\<close> and
  \<open>analysis\<close> the entry point returns normally and leaves the world as it was: no
  collaborator is called, no file is written and nothing is printed.
\<close>

theorem unrecognized_mode_is_no_op:
  "1 < length argv \<Longrightarrow> argv ! 1 \<noteq> ''run_simulation'' \<Longrightarrow> argv ! 1 \<noteq> ''analysis''
     \<Longrightarrow> main env argv w = (Inr (), w)"
  by (simp add: main_def andthen_def lift_def argv_get_def)

theorem unrecognized_mode_is_no_op_witness:
  "1 < length [''run.py'', ''plot''] \<and> [''run.py'', ''plot''] ! 1 \<noteq> ''run_simulation'' \<and>
   [''run.py'', ''plot''] ! 1 \<noteq> ''analysis'' \<and>
   main stub_env [''run.py'', ''plot''] world0 = (Inr (), world0)"
  using unrecognized_mode_is_no_op [of "[''run.py'', ''plot'']" stub_env world0]
  by simp


lemma run_mogp_simulation_Inr:
  assumes ok: "fst (run_mogp_simulation env n m f d w) = Inr ()"
  shows "\<exists>pts r'. ed_sample env n (np_random_seed env 157374) = (Inr pts, r') \<and>
           npy_files (snd (run_mogp_simulation env n m f d w))
             = (npy_files w)(fs_key (cwd w) ''input_points.npy'' \<mapsto> pts) \<and>
           cwd (snd (run_mogp_simulation env n m f d w)) = cwd w \<and>
           calls (snd (run_mogp_simulation env n m f d w))
             = calls w @ [Seed 157374, Sample n] @ case_calls m f d 1 pts
                 @ [Save ''input_points.npy'' pts]"
proof -
  obtain res r' where s: "ed_sample env n (np_random_seed env 157374) = (res, r')"
    by (cases "ed_sample env n (np_random_seed env 157374)")
  let ?w2 = "w\<lparr>rng := r', calls := calls w @ [Seed 157374, Sample n]\<rparr>"
  from ok s obtain pts where p: "res = Inr pts"
    by (cases res) (simp_all add: run_mogp_simulation_unfold)
  obtain lres w3 where l: "simulation_loop env m f d 1 pts ?w2 = (lres, w3)"
    by (cases "simulation_loop env m f d 1 pts ?w2")
  have fr: "npy_files w3 = npy_files w" "cwd w3 = cwd w"
    using simulation_loop_frame [of env m f d 1 pts ?w2] l by simp_all
  from ok s p l have lr: "lres = Inr ()"
    by (cases lres) (simp_all add: run_mogp_simulation_unfold)
  with l have "calls w3 = calls ?w2 @ case_calls m f d 1 pts"
    using simulation_loop_calls [of env m f d 1 pts ?w2 "()" w3] by simp
  with s p l lr fr show ?thesis
    by (simp add: run_mogp_simulation_unfold np_save_def)
qed

text \<open>
  Claim C2. When the batch completes, the calls it made are, after seeding and
  sampling, for each row \<open>i\<close> of the design in order (counted from 0 here) the
  construction of case \<open>simulation_(i+1)\<close> from that row followed by the execution
  of that case, so case \<open>i\<close> is executed before case \<open>i+1\<close> is constructed; and
  when the aggregator returns a training set, its \<open>i\<close>-th result is what
  \<open>compute_moment\<close> gives for the case named \<open>simulation_(i+1)\<close>, one result per row.
\<close>

theorem index_name_alignment:
  assumes batch: "fst (run_mogp_simulation env n m f d w) = Inr ()"
    and aggregate: "fst (load_training_set env d v) = Inr (pts, rs)"
  shows "\<exists>design cs.
           fst (ed_sample env n (np_random_seed env 157374)) = Inr design \<and>
           calls (snd (run_mogp_simulation env n m f d w))
             = calls w @ [Seed 157374, Sample n] @ cs @ [Save ''input_points.npy'' design] \<and>
           length cs = 2 * length design \<and>
           (\<forall>i<length design.
              cs ! (2 * i)
                = CreateProblem (design ! i) (''simulation_'' @ str_int (int i + 1)) d \<and>
              cs ! (2 * i + 1)
                = RunSimulation (''simulation_'' @ str_int (int i + 1)) 4 m f d) \<and>
           length rs = length pts \<and>
           (\<forall>i<length pts.
              compute_moment env (''simulation_'' @ str_int (int i + 1)) d (sims v)
                = Inr (rs ! i))"
proof -
  from run_mogp_simulation_Inr [OF batch] obtain design r' where
    d: "ed_sample env n (np_random_seed env 157374) = (Inr design, r')"
    and c: "calls (snd (run_mogp_simulation env n m f d w))
             = calls w @ [Seed 157374, Sample n] @ case_calls m f d 1 design
                 @ [Save ''input_points.npy'' design]"
    by blast
  have pos: "\<forall>i<length design.
      case_calls m f d 1 design ! (2 * i)
        = CreateProblem (design ! i) (''simulation_'' @ str_int (int i + 1)) d \<and>
      case_calls m f d 1 design ! (2 * i + 1)
        = RunSimulation (''simulation_'' @ str_int (int i + 1)) 4 m f d"
    using case_calls_nth [of _ design m f d 1] by (simp add: add.commute)
  let ?v1 = "v\<lparr>calls := calls v @ [Load (join d ''input_points.npy'')]\<rparr>"
  from aggregate obtain w' where
    l: "results_loop env d 1 pts [] ?v1 = (Inr rs, w')"
    by (auto simp: load_training_set_unfold split: option.splits prod.splits sum.splits)
  from results_loop_Inr [OF l]
  have r: "length rs = length pts"
    "\<forall>i<length pts.
       compute_moment env (''simulation_'' @ str_int (int i + 1)) d (sims v) = Inr (rs ! i)"
    by (simp_all add: add.commute)
  from d c pos r show ?thesis
    by (intro exI [of _ design] exI [of _ "case_calls m f d 1 design"])
       (simp add: case_calls_length)
qed


lemmas stub_defs =
  stub_env_def stub_sample_def stub_create_def stub_run_def stub_moment_def stub_point_def
  world0_def create_problem_call_def run_simulation_call_def compute_moment_call_def
  np_save_def str_int_small

lemma fs_key_home:
  "fs_key ''/home/user/run'' ''input_points.npy'' = [''home'', ''user'', ''run'', ''input_points.npy'']"
  "fs_key ''/home/user/run'' (join ''/home/user/run'' ''input_points.npy'')
     = [''home'', ''user'', ''run'', ''input_points.npy'']"
  "fs_key ''/home/user/run'' (join ''/data/out'' ''input_points.npy'')
     = [''data'', ''out'', ''input_points.npy'']"
  by (simp_all add: fs_key_def join_def)

lemma stub_run_home:
  "fst (run_mogp_simulation stub_env 2 ''mpirun'' ''fdfault'' ''/home/user/run'' world0) = Inr ()"
  by (simp add: run_mogp_simulation_unfold stub_defs upt_rec [of 0] numeral_2_eq_2)

lemma stub_run_other:
  "fst (run_mogp_simulation stub_env 2 ''mpirun'' ''fdfault'' ''/home/user/run''
          (world0\<lparr>rng := 7, cwd := ''/tmp''\<rparr>)) = Inr ()"
  by (simp add: run_mogp_simulation_unfold stub_defs upt_rec [of 0] numeral_2_eq_2)

lemma stub_load_home:
  "fst (load_training_set stub_env ''/home/user/run''
          (snd (run_mogp_simulation stub_env 2 ''mpirun'' ''fdfault'' ''/home/user/run'' world0)))
     = Inr ([[- 100, 1 / 4, 1], [- 101, 1 / 4, 1]], [- 395 / 4, - 399 / 4])"
  by (simp add: load_training_set_unfold run_mogp_simulation_unfold stub_defs fs_key_home
        upt_rec [of 0] numeral_2_eq_2)


theorem batch_design_is_deterministic_witness:
  "fst (run_mogp_simulation stub_env 2 ''mpirun'' ''fdfault'' ''/home/user/run'' world0) = Inr () \<and>
   fst (run_mogp_simulation stub_env 2 ''mpirun'' ''fdfault'' ''/home/user/run''
          (world0\<lparr>rng := 7, cwd := ''/tmp''\<rparr>)) = Inr () \<and>
   (\<exists>pts. fst (ed_sample stub_env 2 (np_random_seed stub_env 157374)) = Inr pts \<and>
      npy_files (snd (run_mogp_simulation stub_env 2 ''mpirun'' ''fdfault'' ''/home/user/run'' world0))
        (fs_key (cwd world0) ''input_points.npy'') = Some pts \<and>
      npy_files (snd (run_mogp_simulation stub_env 2 ''mpirun'' ''fdfault'' ''/home/user/run''
                        (world0\<lparr>rng := 7, cwd := ''/tmp''\<rparr>)))
        (fs_key (cwd (world0\<lparr>rng := 7, cwd := ''/tmp''\<rparr>)) ''input_points.npy'') = Some pts)"
  using batch_design_is_deterministic
          [of stub_env 2 world0 "world0\<lparr>rng := 7, cwd := ''/tmp''\<rparr>"
              "''mpirun''" "''fdfault''" "''/home/user/run''"
              "''mpirun''" "''fdfault''" "''/home/user/run''"]
        stub_run_home stub_run_other
  by blast

theorem index_name_alignment_witness:
  "fst (run_mogp_simulation stub_env 2 ''mpirun'' ''fdfault'' ''/home/user/run'' world0) = Inr () \<and>
   fst (load_training_set stub_env ''/home/user/run''
          (snd (run_mogp_simulation stub_env 2 ''mpirun'' ''fdfault'' ''/home/user/run'' world0)))
     = Inr ([[- 100, 1 / 4, 1], [- 101, 1 / 4, 1]], [- 395 / 4, - 399 / 4]) \<and>
   (\<exists>design cs.
      fst (ed_sample stub_env 2 (np_random_seed stub_env 157374)) = Inr design \<and>
      calls (snd (run_mogp_simulation stub_env 2 ''mpirun'' ''fdfault'' ''/home/user/run'' world0))
        = calls world0 @ [Seed 157374, Sample 2] @ cs @ [Save ''input_points.npy'' design] \<and>
      length cs = 2 * length design \<and>
      cs ! 2 = CreateProblem (design ! 1) ''simulation_2'' ''/home/user/run'' \<and>
      cs ! 3 = RunSimulation ''simulation_2'' 4 ''mpirun'' ''fdfault'' ''/home/user/run'') \<and>
   compute_moment stub_env ''simulation_2'' ''/home/user/run''
     (sims (snd (run_mogp_simulation stub_env 2 ''mpirun'' ''fdfault'' ''/home/user/run'' world0)))
     = Inr (- 399 / 4)"
proof -
  from index_name_alignment [OF stub_run_home stub_load_home]
  obtain design cs where
    d: "fst (ed_sample stub_env 2 (np_random_seed stub_env 157374)) = Inr design"
    and c: "calls (snd (run_mogp_simulation stub_env 2 ''mpirun'' ''fdfault'' ''/home/user/run'' world0))
        = calls world0 @ [Seed 157374, Sample 2] @ cs @ [Save ''input_points.npy'' design]"
    and l: "length cs = 2 * length design"
    and p: "\<forall>i<length design.
              cs ! (2 * i)
                = CreateProblem (design ! i) (''simulation_'' @ str_int (int i + 1)) ''/home/user/run'' \<and>
              cs ! (2 * i + 1)
                = RunSimulation (''simulation_'' @ str_int (int i + 1)) 4 ''mpirun'' ''fdfault'' ''/home/user/run''"
    and r: "\<forall>i<length [[- 100, 1 / 4, 1], [- 101, 1 / 4, 1 :: real]].
              compute_moment stub_env (''simulation_'' @ str_int (int i + 1)) ''/home/user/run''
                (sims (snd (run_mogp_simulation stub_env 2 ''mpirun'' ''fdfault'' ''/home/user/run'' world0)))
                = Inr ([- 395 / 4, - 399 / 4] ! i)"
    by blast
  from d have len: "length design = 2"
    by (auto simp: stub_env_def stub_sample_def upt_rec [of 0] numeral_2_eq_2)
  from p len have p1:
    "cs ! 2 = CreateProblem (design ! 1) ''simulation_2'' ''/home/user/run'' \<and>
     cs ! 3 = RunSimulation ''simulation_2'' 4 ''mpirun'' ''fdfault'' ''/home/user/run''"
    by (auto dest!: spec [of _ 1] simp: str_int_small)
  from r have r1: "compute_moment stub_env ''simulation_2'' ''/home/user/run''
     (sims (snd (run_mogp_simulation stub_env 2 ''mpirun'' ''fdfault'' ''/home/user/run'' world0)))
     = Inr (- 399 / 4)"
    by (auto dest!: spec [of _ 1] simp: str_int_small)
  from stub_run_home stub_load_home d c l p1 r1 show ?thesis
    by blast
qed

section \<open>The aggregator and the validation point\<close>

lemma andthen_Inl: "fst (m w) = Inl e \<Longrightarrow> fst (andthen m f w) = Inl e"
  by (cases "m w") (simp add: andthen_def)

lemma andthen_Inl_world: "fst (m w) = Inl e \<Longrightarrow> snd (andthen m f w) = snd (m w)"
  by (cases "m w") (simp add: andthen_def)

text \<open>
  Claim C6. For a saved design of \<open>N\<close> points: when extraction fails for some case
  \<open>simulation_i\<close> with \<open>1 \<le> i \<le> N\<close> (its output is absent), aggregation raises the
  error of the first such case, and so does \<open>run_mogp_analysis\<close>; no shorter training
  set is returned. When extraction succeeds for all \<open>N\<close> cases, the training set is
  the design with exactly \<open>N\<close> results.
\<close>

theorem missing_case_raises:
  assumes design: "npy_files w (fs_key (cwd w) (join d ''input_points.npy'')) = Some pts"
  shows "(\<forall>i e. i < length pts \<longrightarrow>
            compute_moment env (''simulation_'' @ str_int (int i + 1)) d (sims w) = Inl e \<longrightarrow>
            (\<exists>e' j. j \<le> i \<and>
               compute_moment env (''simulation_'' @ str_int (int j + 1)) d (sims w) = Inl e' \<and>
               fst (load_training_set env d w) = Inl e' \<and>
               fst (run_mogp_analysis env m f d w) = Inl e')) \<and>
         ((\<forall>i<length pts. \<exists>r.
             compute_moment env (''simulation_'' @ str_int (int i + 1)) d (sims w) = Inr r) \<longrightarrow>
            (\<exists>rs. fst (load_training_set env d w) = Inr (pts, rs) \<and> length rs = length pts))"
proof (intro conjI allI impI)
  fix i e
  let ?w1 = "w\<lparr>calls := calls w @ [Load (join d ''input_points.npy'')]\<rparr>"
  assume i: "i < length pts"
    and e: "compute_moment env (''simulation_'' @ str_int (int i + 1)) d (sims w) = Inl e"
  from e have "compute_moment env (''simulation_'' @ str_int (1 + int i)) d (sims ?w1) = Inl e"
    by (simp add: add.commute)
  from results_loop_missing [OF i this, of "[]"] obtain e' j where
    j: "j \<le> i" "fst (results_loop env d 1 pts [] ?w1) = Inl e'"
       "compute_moment env (''simulation_'' @ str_int (1 + int j)) d (sims ?w1) = Inl e'"
    by blast
  from j(2) design have l: "fst (load_training_set env d w) = Inl e'"
    by (cases "results_loop env d 1 pts [] ?w1") (simp add: load_training_set_unfold)
  then have "fst (run_mogp_analysis env m f d w) = Inl e'"
    unfolding run_mogp_analysis_def by (rule andthen_Inl)
  with j l show "\<exists>e' j. j \<le> i \<and>
               compute_moment env (''simulation_'' @ str_int (int j + 1)) d (sims w) = Inl e' \<and>
               fst (load_training_set env d w) = Inl e' \<and>
               fst (run_mogp_analysis env m f d w) = Inl e'"
    by (intro exI [of _ e'] exI [of _ j]) (simp add: add.commute)
next
  let ?w1 = "w\<lparr>calls := calls w @ [Load (join d ''input_points.npy'')]\<rparr>"
  assume "\<forall>i<length pts. \<exists>r.
             compute_moment env (''simulation_'' @ str_int (int i + 1)) d (sims w) = Inr r"
  then have "\<forall>i<length pts. \<exists>r.
             compute_moment env (''simulation_'' @ str_int (1 + int i)) d (sims ?w1) = Inr r"
    by (simp add: add.commute)
  from results_loop_all_present [OF this, of "[]"] obtain rs where
    rs: "fst (results_loop env d 1 pts [] ?w1) = Inr rs"
    by blast
  then obtain w' where l: "results_loop env d 1 pts [] ?w1 = (Inr rs, w')"
    by (cases "results_loop env d 1 pts [] ?w1") simp
  from results_loop_Inr [OF l] have "length rs = length pts" by simp
  with l design show "\<exists>rs. fst (load_training_set env d w) = Inr (pts, rs) \<and> length rs = length pts"
    by (simp add: load_training_set_unfold)
qed


lemma world_missing_3_design:
  "npy_files world_missing_3
     (fs_key (cwd world_missing_3) (join ''/home/user/run'' ''input_points.npy''))
     = Some [stub_point 0, stub_point 1, stub_point 2, stub_point 3, stub_point 4]"
  by (simp add: world_missing_3_def world0_def fs_key_home)

lemma world_missing_3_case_3:
  "compute_moment stub_env (''simulation_'' @ str_int (int 2 + 1)) ''/home/user/run''
     (sims world_missing_3) = Inl (External ''no output'')"
  by (simp add: world_missing_3_def world0_def stub_env_def stub_moment_def str_int_small)

lemma stub_home_design:
  "npy_files (snd (run_mogp_simulation stub_env 2 ''mpirun'' ''fdfault'' ''/home/user/run'' world0))
     (fs_key (cwd (snd (run_mogp_simulation stub_env 2 ''mpirun'' ''fdfault'' ''/home/user/run'' world0)))
        (join ''/home/user/run'' ''input_points.npy''))
     = Some [stub_point 0, stub_point 1]"
  by (simp add: run_mogp_simulation_unfold stub_defs fs_key_home upt_rec [of 0] numeral_2_eq_2)

lemma stub_home_all_present:
  "\<forall>i<length [stub_point 0, stub_point 1]. \<exists>r.
     compute_moment stub_env (''simulation_'' @ str_int (int i + 1)) ''/home/user/run''
       (sims (snd (run_mogp_simulation stub_env 2 ''mpirun'' ''fdfault'' ''/home/user/run'' world0)))
       = Inr r"
  by (simp add: run_mogp_simulation_unfold stub_defs all_less_Suc_shift
        upt_rec [of 0] numeral_2_eq_2)

theorem missing_case_raises_witness:
  "npy_files world_missing_3
     (fs_key (cwd world_missing_3) (join ''/home/user/run'' ''input_points.npy''))
     = Some [stub_point 0, stub_point 1, stub_point 2, stub_point 3, stub_point 4] \<and>
   compute_moment stub_env ''simulation_3'' ''/home/user/run'' (sims world_missing_3)
     = Inl (External ''no output'') \<and>
   (\<exists>e'. fst (load_training_set stub_env ''/home/user/run'' world_missing_3) = Inl e' \<and>
      fst (run_mogp_analysis stub_env ''mpirun'' ''fdfault'' ''/home/user/run'' world_missing_3)
        = Inl e') \<and>
   (\<exists>rs. fst (load_training_set stub_env ''/home/user/run''
                (snd (run_mogp_simulation stub_env 2 ''mpirun'' ''fdfault'' ''/home/user/run'' world0)))
            = Inr ([stub_point 0, stub_point 1], rs) \<and>
          length rs = length [stub_point 0, stub_point 1])"
proof -
  note a = missing_case_raises [OF world_missing_3_design, of stub_env "''mpirun''" "''fdfault''"]
  note b = missing_case_raises [OF stub_home_design, of stub_env "''mpirun''" "''fdfault''"]
  have c3: "compute_moment stub_env ''simulation_3'' ''/home/user/run'' (sims world_missing_3)
     = Inl (External ''no output'')"
    using world_missing_3_case_3 by (simp add: str_int_small)
  have "(2::nat) < length [stub_point 0, stub_point 1, stub_point 2, stub_point 3, stub_point 4]"
    by simp
  with a world_missing_3_case_3
  have m: "\<exists>e'. fst (load_training_set stub_env ''/home/user/run'' world_missing_3) = Inl e' \<and>
      fst (run_mogp_analysis stub_env ''mpirun'' ''fdfault'' ''/home/user/run'' world_missing_3)
        = Inl e'"
    by blast
  from b stub_home_all_present
  have p: "\<exists>rs. fst (load_training_set stub_env ''/home/user/run''
                (snd (run_mogp_simulation stub_env 2 ''mpirun'' ''fdfault'' ''/home/user/run'' world0)))
            = Inr ([stub_point 0, stub_point 1], rs) \<and>
          length rs = length [stub_point 0, stub_point 1]"
    by blast
  from world_missing_3_design c3 m p show ?thesis by blast
qed

lemma known_value_is_reserved: "''known_value'' \<noteq> ''simulation_'' @ s"
  by simp






section \<open>The sample count, history matching, and where the design is saved\<close>

lemmas py_int_defs =
  py_int_def py_int_ascii_def is_ascii_def py_strip_def py_isspace_def py_digits_def
  is_digit_def digits_value_def

lemma py_int_examples:
  "py_int stub_env ''abc'' = None" "py_int stub_env ''0'' = Some 0"
  "py_int stub_env ''-3'' = Some (- 3)" "py_int stub_env ''3.5'' = None"
  "py_int stub_env [] = None" "py_int stub_env '' 12 '' = Some 12"
  "py_int stub_env ''1_000'' = Some 1000" "py_int stub_env ''+ 3'' = None"
  by (simp_all add: py_int_defs stub_env_def)

text \<open>
  The separators 0x1C to 0x1F are not the white space \<open>int\<close> skips in ASCII text, and
  text outside ASCII is read as the interpreter reads it.
\<close>

lemma py_int_separators:
  "py_int stub_env [CHR 0x1C, CHR ''2''] = None"
  "py_int stub_env [CHR ''2'', CHR 0x1F] = None"
  "py_int stub_env [CHR 0x1D, CHR ''-'', CHR ''3'', CHR 0x1E] = None"
  by (simp_all add: py_int_defs stub_env_def)

lemma py_int_non_ascii: "\<not> is_ascii s \<Longrightarrow> py_int env s = int_non_ascii env s"
  by (simp add: py_int_def)

text \<open>More digits than the limit are refused, leading zeros counted.\<close>

lemma py_digits_limit:
  "0 < max_digits \<Longrightarrow> max_digits < length (concat (split_sep (CHR ''_'') s))
     \<Longrightarrow> py_digits max_digits s = None"
  by (simp add: py_digits_def)

lemma main_run_simulation_unfold:
  "main env [prog, ''run_simulation'', m, f, d, arg] w =
     (case py_int env arg of
        None \<Rightarrow>
          (Inl SystemExit,
           w\<lparr>stdout := stdout w @ [Text ''Error : input sample points should be integer value !'']\<rparr>)
      | Some k \<Rightarrow>
          run_mogp_simulation env k m f d
            (w\<lparr>stdout := stdout w @ [Text (mood_line ''run_simulation''),
                                      Text (sample_points_line k)]\<rparr>))"
  by (simp add: main_def andthen_def lift_def argv_get_def print_def split: option.split)

text \<open>
  Claim C3, as the code has it. For every sample count for which \<open>int\<close> raises
  ValueError (text that is not an integer, as \<open>abc\<close>), the entry point prints its
  error message and exits: no collaborator is called, so nothing is seeded, sampled or
  dispatched, no file is written, and no value is made up for the count. The check is
  of integer text only.
\<close>

theorem non_integer_sample_count_is_rejected:
  "py_int env arg = None \<Longrightarrow>
     main env [prog, ''run_simulation'', mpi_exec, fdfault_exec, results_dir, arg] w =
       (Inl SystemExit,
        w\<lparr>stdout := stdout w @ [Text ''Error : input sample points should be integer value !'']\<rparr>)"
  by (simp add: main_run_simulation_unfold)

theorem non_integer_sample_count_is_rejected_witness:
  "py_int stub_env ''abc'' = None \<and>
   main stub_env [''run.py'', ''run_simulation'', ''mpirun'', ''fdfault'', ''/data/out'', ''abc''] world0 =
     (Inl SystemExit,
      world0\<lparr>stdout := stdout world0 @ [Text ''Error : input sample points should be integer value !'']\<rparr>)"
  using non_integer_sample_count_is_rejected
          [OF py_int_examples(1), of "''run.py''" "''mpirun''" "''fdfault''" "''/data/out''" world0]
        py_int_examples(1)
  by simp

text \<open>
  Claim C3 as stated fails for integers that are not positive: \<open>int\<close> accepts \<open>0\<close>
  and \<open>-3\<close>, the entry point prints the two lines that report the accepted value
  and calls \<open>run_mogp_simulation\<close>, which seeds and asks the sampler for that many
  points; the error message is not printed and \<open>exit()\<close> is not reached.
\<close>

theorem nonpositive_sample_count_counterexample:
  "py_int stub_env ''0'' = Some 0 \<and> py_int stub_env ''-3'' = Some (- 3) \<and>
   fst (main stub_env [''run.py'', ''run_simulation'', ''mpirun'', ''fdfault'', ''/data/out'', ''0''] world0)
     \<noteq> Inl SystemExit \<and>
   stdout (snd (main stub_env
       [''run.py'', ''run_simulation'', ''mpirun'', ''fdfault'', ''/data/out'', ''0''] world0))
     = [Text (mood_line ''run_simulation''), Text (sample_points_line 0)] \<and>
   take 2 (calls (snd (main stub_env
       [''run.py'', ''run_simulation'', ''mpirun'', ''fdfault'', ''/data/out'', ''0''] world0)))
     = [Seed 157374, Sample 0] \<and>
   fst (main stub_env [''run.py'', ''run_simulation'', ''mpirun'', ''fdfault'', ''/data/out'', ''-3''] world0)
     \<noteq> Inl SystemExit \<and>
   stdout (snd (main stub_env
       [''run.py'', ''run_simulation'', ''mpirun'', ''fdfault'', ''/data/out'', ''-3''] world0))
     = [Text (mood_line ''run_simulation''), Text (sample_points_line (- 3))] \<and>
   take 2 (calls (snd (main stub_env
       [''run.py'', ''run_simulation'', ''mpirun'', ''fdfault'', ''/data/out'', ''-3''] world0)))
     = [Seed 157374, Sample (- 3)]"
proof -
  let ?a0 = "[''run.py'', ''run_simulation'', ''mpirun'', ''fdfault'', ''/data/out'', ''0'']"
  let ?a3 = "[''run.py'', ''run_simulation'', ''mpirun'', ''fdfault'', ''/data/out'', ''-3'']"
  have m0: "main stub_env ?a0 world0 =
      run_mogp_simulation stub_env 0 ''mpirun'' ''fdfault'' ''/data/out''
        (world0\<lparr>stdout := stdout world0 @ [Text (mood_line ''run_simulation''),
                                            Text (sample_points_line 0)]\<rparr>)"
    by (simp add: main_run_simulation_unfold py_int_examples)
  have m3: "main stub_env ?a3 world0 =
      run_mogp_simulation stub_env (- 3) ''mpirun'' ''fdfault'' ''/data/out''
        (world0\<lparr>stdout := stdout world0 @ [Text (mood_line ''run_simulation''),
                                            Text (sample_points_line (- 3))]\<rparr>)"
    by (simp add: main_run_simulation_unfold py_int_examples)
  have r0: "fst (main stub_env ?a0 world0) \<noteq> Inl SystemExit \<and>
      stdout (snd (main stub_env ?a0 world0))
        = [Text (mood_line ''run_simulation''), Text (sample_points_line 0)] \<and>
      take 2 (calls (snd (main stub_env ?a0 world0))) = [Seed 157374, Sample 0]"
    unfolding m0
    by (simp add: run_mogp_simulation_unfold stub_env_def stub_sample_def world0_def np_save_def)
  have r3: "fst (main stub_env ?a3 world0) \<noteq> Inl SystemExit \<and>
      stdout (snd (main stub_env ?a3 world0))
        = [Text (mood_line ''run_simulation''), Text (sample_points_line (- 3))] \<and>
      take 2 (calls (snd (main stub_env ?a3 world0))) = [Seed 157374, Sample (- 3)]"
    unfolding m3
    by (simp add: run_mogp_simulation_unfold stub_env_def stub_sample_def world0_def np_save_def)
  from py_int_examples(2) py_int_examples(3) r0 r3 show ?thesis
    by blast
qed

lemma history_matching_stage_first_call:
  "fst (history_matching_call env known_value query_points predictions 2 w)
     = HistoryMatching env known_value query_points predictions 2 \<and>
   calls (snd (history_matching_call env known_value query_points predictions 2 w))
     = calls w @ [NewHistoryMatching known_value query_points predictions 2]"
  by (simp add: history_matching_call_def)

text \<open>
  Claim C4. For predictions whose variances are all positive, the implausibility of
  query point \<open>i\<close> is \<open>|observation - mean_i| / sqrt(variance_i)\<close>, and NROY is exactly
  the indices whose implausibility is at most the threshold; an index whose
  implausibility equals the threshold is in NROY. The indices come in increasing
  order, each once.
\<close>

theorem implausibility_and_nroy:
  assumes positive: "list_all (\<lambda>p. 0 < snd p) predictions"
  shows "\<exists>I N. history_matching_spec obs predictions threshold = Some (I, N) \<and>
           length I = length predictions \<and>
           (\<forall>i<length predictions.
              I ! i = \<bar>obs - fst (predictions ! i)\<bar> / sqrt (snd (predictions ! i))) \<and>
           set N = {i. i < length predictions \<and> I ! i \<le> threshold} \<and>
           (\<forall>i<length predictions. I ! i = threshold \<longrightarrow> i \<in> set N) \<and>
           sorted N \<and> distinct N"
proof -
  let ?I = "map (\<lambda>p. \<bar>obs - fst p\<bar> / sqrt (snd p)) predictions"
  let ?N = "filter (\<lambda>i. \<bar>obs - fst (predictions ! i)\<bar> / sqrt (snd (predictions ! i)) \<le> threshold)
              [0..<length predictions]"
  have v: "history_matching_spec obs predictions threshold = Some (?I, ?N)"
    using positive by (simp add: history_matching_spec_def)
  have n: "\<forall>i<length predictions.
             ?I ! i = \<bar>obs - fst (predictions ! i)\<bar> / sqrt (snd (predictions ! i))"
    by simp
  have s: "set ?N = {i. i < length predictions \<and> ?I ! i \<le> threshold}"
    by auto
  have b: "\<forall>i<length predictions. ?I ! i = threshold \<longrightarrow> i \<in> set ?N"
    by auto
  have o: "sorted ?N \<and> distinct ?N"
    by (simp add: sorted_wrt_filter)
  from v n s b o show ?thesis
    by (intro exI [of _ ?I] exI [of _ ?N]) simp
qed

lemma spec_example_positive: "list_all (\<lambda>p. 0 < snd p) [(10, 1), (12, 1), (50, 1 :: real)]"
  by simp

lemma spec_example_value:
  "history_matching_spec 10 [(10, 1), (12, 1), (50, 1)] 2 = Some ([0, 2, 40], [0, 1])"
  by (simp add: history_matching_spec_def upt_rec [of 0] numeral_3_eq_3)

theorem implausibility_and_nroy_witness:
  "list_all (\<lambda>p. 0 < snd p) [(10, 1), (12, 1), (50, 1 :: real)] \<and>
   history_matching_spec 10 [(10, 1), (12, 1), (50, 1)] 2 = Some ([0, 2, 40], [0, 1]) \<and>
   set [0, 1 :: nat] = {i. i < length [(10, 1), (12, 1), (50, 1 :: real)] \<and> [0, 2, 40 :: real] ! i \<le> 2}"
  using implausibility_and_nroy [OF spec_example_positive, of 10 2]
        spec_example_positive spec_example_value
  by auto


lemma join_data_out: "join ''/data/out'' ''input_points.npy'' = ''/data/out/input_points.npy''"
  by (simp add: join_def)

text \<open>
  Claim C1 fails where the results directory is not the working directory: run from
  \<open>/home/user/run\<close> with results directory \<open>/data/out\<close>, the batch completes and
  saves the design as \<open>/home/user/run/input_points.npy\<close>; there is no
  \<open>/data/out/input_points.npy\<close>, and the analysis run on \<open>/data/out\<close> ends with
  FileNotFoundError.
\<close>

theorem design_saved_outside_results_dir:
  "fst (run_mogp_simulation stub_env 2 ''mpirun'' ''fdfault'' ''/data/out'' world0) = Inr () \<and>
   npy_files (snd (run_mogp_simulation stub_env 2 ''mpirun'' ''fdfault'' ''/data/out'' world0))
     (fs_key (cwd world0) ''input_points.npy'') = Some [stub_point 0, stub_point 1] \<and>
   npy_files (snd (run_mogp_simulation stub_env 2 ''mpirun'' ''fdfault'' ''/data/out'' world0))
     (fs_key (cwd world0) (join ''/data/out'' ''input_points.npy'')) = None \<and>
   fst (run_mogp_analysis stub_env ''mpirun'' ''fdfault'' ''/data/out''
          (snd (run_mogp_simulation stub_env 2 ''mpirun'' ''fdfault'' ''/data/out'' world0)))
     = Inl (FileNotFoundError ''/data/out/input_points.npy'')"
proof -
  let ?w = "snd (run_mogp_simulation stub_env 2 ''mpirun'' ''fdfault'' ''/data/out'' world0)"
  have a: "fst (run_mogp_simulation stub_env 2 ''mpirun'' ''fdfault'' ''/data/out'' world0) = Inr ()"
    by (rule stub_run_2)
  have b: "npy_files ?w (fs_key (cwd world0) ''input_points.npy'') = Some [stub_point 0, stub_point 1]"
    by (simp add: run_mogp_simulation_unfold stub_defs fs_key_home upt_rec [of 0] numeral_2_eq_2)
  have c: "npy_files ?w (fs_key (cwd ?w) (join ''/data/out'' ''input_points.npy'')) = None"
    by (simp add: run_mogp_simulation_unfold stub_defs fs_key_home upt_rec [of 0] numeral_2_eq_2)
  have cw: "cwd ?w = cwd world0"
    by (simp add: run_mogp_simulation_unfold stub_defs upt_rec [of 0] numeral_2_eq_2)
  from c have "fst (load_training_set stub_env ''/data/out'' ?w)
      = Inl (FileNotFoundError ''/data/out/input_points.npy'')"
    by (simp add: load_training_set_unfold join_data_out)
  then have d: "fst (run_mogp_analysis stub_env ''mpirun'' ''fdfault'' ''/data/out'' ?w)
      = Inl (FileNotFoundError ''/data/out/input_points.npy'')"
    unfolding run_mogp_analysis_def by (rule andthen_Inl)
  from a b c cw d show ?thesis by simp
qed


text \<open>
  Where the results directory names the working directory by a path that does not go
  through \<open>..\<close>, the design that \<open>run_mogp_simulation\<close> saved is the one \<open>np.load\<close>
  of the analysis reads.
\<close>

lemma design_round_trip_in_working_directory:
  assumes ok: "fst (run_mogp_simulation env n m f d w) = Inr ()"
    and same: "fs_key (cwd w) (join d ''input_points.npy'') = fs_key (cwd w) ''input_points.npy''"
    and plain: "''..'' \<notin> set (split_sep (CHR ''/'') (join (cwd w) (join d ''input_points.npy'')))"
      "''..'' \<notin> set (split_sep (CHR ''/'') (join (cwd w) ''input_points.npy''))"
  shows "\<exists>pts. fst (ed_sample env n (np_random_seed env 157374)) = Inr pts \<and>
           fst (np_load (join d ''input_points.npy'') (snd (run_mogp_simulation env n m f d w)))
             = Inr pts"
proof -
  from run_mogp_simulation_Inr [OF ok] obtain pts r' where
    "ed_sample env n (np_random_seed env 157374) = (Inr pts, r')"
    "npy_files (snd (run_mogp_simulation env n m f d w))
       = (npy_files w)(fs_key (cwd w) ''input_points.npy'' \<mapsto> pts)"
    "cwd (snd (run_mogp_simulation env n m f d w)) = cwd w"
    by blast
  with same show ?thesis
    by (intro exI [of _ pts]) (simp add: np_load_def)
qed

end
